theory Spec2Isabelle
  imports Complex_Main
begin

section \<open>NumPy arrays and Python errors\<close>

text \<open>
  The exceptions that the modelled code can raise. A function of the source that can
  raise returns \<open>error + 'a\<close>, with \<open>Inl\<close> for the exception.
\<close>

datatype error = TypeError | ValueError | IndexError | NameError | AttributeError

text \<open>
  An \<open>ndarray\<close> is its shape and its elements in row-major (C) order, as NumPy lays out
  a freshly created array. A 0-d array has shape \<open>[]\<close> and one element. Floating-point
  numbers are idealised as reals: rounding and overflow are not modelled, division by
  zero is (see the scattering matrices below). The library is NumPy 1.x, for which the
  module was written; its limits on memory and on the number of axes of one array are
  not modelled.
\<close>

record 'a ndarray =
  shape :: "nat list"
  data :: "'a list"

definition np_array :: "'a list \<Rightarrow> 'a ndarray" where
  \<comment> \<open>\<open>np.array(xs)\<close> for a flat Python list: the 1-D array of its elements.\<close>
  "np_array xs = \<lparr>shape = [length xs], data = xs\<rparr>"

definition np_size :: "'a ndarray \<Rightarrow> nat" where
  \<comment> \<open>\<open>a.size\<close>: the product of the dimensions.\<close>
  "np_size a = prod_list (shape a)"

definition np_squeeze :: "'a ndarray \<Rightarrow> 'a ndarray" where
  \<comment> \<open>\<open>np.squeeze(a)\<close> drops every axis of length one; the elements stay.\<close>
  "np_squeeze a = a\<lparr>shape := filter (\<lambda>d. d \<noteq> 1) (shape a)\<rparr>"

definition py_len :: "'a ndarray \<Rightarrow> error + nat" where
  \<comment> \<open>\<open>len(a)\<close>: the first dimension; \<open>TypeError: len() of unsized object\<close> on a 0-d array.\<close>
  "py_len a = (case shape a of [] \<Rightarrow> Inl TypeError | d # _ \<Rightarrow> Inr d)"

definition shape0 :: "'a ndarray \<Rightarrow> error + nat" where
  \<comment> \<open>\<open>a.shape[0]\<close>: \<open>IndexError: tuple index out of range\<close> on a 0-d array.\<close>
  "shape0 a = (case shape a of [] \<Rightarrow> Inl IndexError | d # _ \<Rightarrow> Inr d)"

definition np_empty :: "nat list \<Rightarrow> real ndarray" where
  \<comment> \<open>\<open>np.empty(shape)\<close>: the content is whatever the memory holds; here zeros.\<close>
  "np_empty sh = \<lparr>shape = sh, data = replicate (prod_list sh) 0\<rparr>"

definition np_reshape_rows :: "'a ndarray \<Rightarrow> nat \<Rightarrow> error + 'a ndarray" where
  \<comment> \<open>\<open>a.reshape(-1, la)\<close>: the unknown dimension is \<open>size / la\<close>; NumPy raises ValueError
      when the known dimensions multiply to zero or do not divide the size.\<close>
  "np_reshape_rows a la =
     (if la = 0 \<or> np_size a mod la \<noteq> 0 then Inl ValueError
      else Inr \<lparr>shape = [np_size a div la, la], data = data a\<rparr>)"

section \<open>Helper functions: the generalised N-dimensional product\<close>

primrec py_lens :: "'a ndarray list \<Rightarrow> error + nat list" where
  \<comment> \<open>\<open>[len(a) for a in arrays]\<close>\<close>
  "py_lens [] = Inr []"
| "py_lens (a # as) =
     (case py_len a of
        Inl e \<Rightarrow> Inl e
      | Inr d \<Rightarrow> (case py_lens as of Inl e \<Rightarrow> Inl e | Inr ds \<Rightarrow> Inr (d # ds)))"

definition np_ix :: "'a ndarray list \<Rightarrow> error + 'a ndarray list" where
  \<comment> \<open>\<open>np.ix_(*arrays)\<close>: every argument must be 1-D (\<open>ValueError: Cross index must be
      1 dimensional\<close>); the \<open>k\<close>-th result is the \<open>k\<close>-th argument reshaped so that it varies
      along axis \<open>k\<close> only, every other axis having length one.\<close>
  "np_ix arrays =
     (if list_all (\<lambda>a. length (shape a) = 1) arrays
      then Inr (map (\<lambda>(k, a). \<lparr>shape = (replicate (length arrays) 1)[k := np_size a], data = data a\<rparr>)
                 (enumerate 0 arrays))
      else Inl ValueError)"

definition assign_last :: "real ndarray \<Rightarrow> nat \<Rightarrow> real ndarray \<Rightarrow> real ndarray" where
  \<comment> \<open>\<open>arr[..., i] = a\<close> for the \<open>i\<close>-th open-mesh array \<open>a\<close> of \<open>np.ix_\<close>: broadcasting
      copies \<open>a\<close> along every axis but axis \<open>i\<close>. The cell at flat position \<open>p\<close> has last
      coordinate \<open>p mod la\<close> and, along axis \<open>i\<close>, the coordinate
      \<open>(p div la div stride) mod dims ! i\<close>, where \<open>stride\<close> is the product of the dimensions
      after axis \<open>i\<close>.\<close>
  "assign_last arr i a =
     (let la = last (shape arr);
          dims = butlast (shape arr);
          stride = prod_list (drop (Suc i) dims)
      in arr\<lparr>data := map (\<lambda>p. if p mod la = i
                               then data a ! ((p div la div stride) mod (dims ! i))
                               else data arr ! p)
                        [0..<length (data arr)]\<rparr>)"

definition cartesian_product :: "real ndarray list \<Rightarrow> error + real ndarray" where
  \<comment> \<open>\<open>np.find_common_type\<close> picks the element type of the result; here every array
      holds reals.\<close>
  "cartesian_product arrays =
     (let la = length arrays in
      case py_lens arrays of
        Inl e \<Rightarrow> Inl e
      | Inr dims \<Rightarrow>
          (let arr = np_empty (dims @ [la]) in
           case np_ix arrays of
             Inl e \<Rightarrow> Inl e
           | Inr mesh \<Rightarrow>
               (let arr = foldl (\<lambda>arr (i, a). assign_last arr i a) arr (enumerate 0 mesh)
                in np_reshape_rows arr la)))"

section \<open>The neural networks\<close>

text \<open>
  \<open>ANN_straightReal\<close> is an \<open>ImportNN\<close> object of the package's module \<open>import_nn\<close>. The
  model takes its two methods as parameters: \<open>output(INPUT)\<close> and
  \<open>differentiate(INPUT, d=(k, 0, derivative))\<close>, each returning an array or raising.
\<close>

record ann =
  ann_output :: "real ndarray \<Rightarrow> error + real ndarray"
  ann_differentiate :: "real ndarray \<Rightarrow> nat \<times> nat \<times> nat \<Rightarrow> error + real ndarray"

section \<open>Indexing, reshaping and broadcasting\<close>

definition np_zeros :: "nat list \<Rightarrow> real ndarray" where
  "np_zeros sh = \<lparr>shape = sh, data = replicate (prod_list sh) 0\<rparr>"

definition np_column :: "'a ndarray \<Rightarrow> nat \<Rightarrow> error + 'a ndarray" where
  \<comment> \<open>\<open>a[:, k]\<close>: IndexError on an array of fewer than two axes or when \<open>k\<close> is not below
      the second dimension; otherwise, for each index of the first axis, the block of the
      remaining axes at second index \<open>k\<close>.\<close>
  "np_column a k =
     (case shape a of
        r # c # rest \<Rightarrow>
          if k < c
          then Inr \<lparr>shape = r # rest,
                    data = concat (map (\<lambda>i. take (prod_list rest)
                                               (drop ((i * c + k) * prod_list rest) (data a)))
                                       [0..<r])\<rparr>
          else Inl IndexError
      | _ \<Rightarrow> Inl IndexError)"

definition np_reshape :: "'a ndarray \<Rightarrow> nat list \<Rightarrow> error + 'a ndarray" where
  \<comment> \<open>\<open>np.reshape(a, sh)\<close>: the elements in row-major order under the new shape;
      ValueError when the sizes differ.\<close>
  "np_reshape a sh =
     (if np_size a = prod_list sh then Inr \<lparr>shape = sh, data = data a\<rparr> else Inl ValueError)"

definition np_ravel :: "'a ndarray \<Rightarrow> 'a ndarray" where
  \<comment> \<open>\<open>a.flatten()\<close>: the 1-D array of the elements in row-major order.\<close>
  "np_ravel a = \<lparr>shape = [np_size a], data = data a\<rparr>"

fun strip_ones :: "nat list \<Rightarrow> nat list" where
  \<comment> \<open>Assignment to a 1-D target strips unit dimensions from the left of the source's
      shape while it has more than one axis.\<close>
  "strip_ones (d # e # sh) = (if d = 1 then strip_ones (e # sh) else d # e # sh)"
| "strip_ones sh = sh"

definition broadcast_to :: "nat \<Rightarrow> 'a ndarray \<Rightarrow> error + 'a list" where
  \<comment> \<open>The \<open>n\<close> values that \<open>target[...] = v\<close> writes into a 1-D target of length \<open>n\<close>:
      \<open>v\<close> itself when its shape is \<open>(n,)\<close>, its single element repeated when its shape is
      \<open>()\<close> or \<open>(1,)\<close>, and \<open>ValueError: could not broadcast input array\<close> otherwise.\<close>
  "broadcast_to n v =
     (case strip_ones (shape v) of
        [] \<Rightarrow> Inr (replicate n (hd (data v)))
      | [d] \<Rightarrow> if d = n then Inr (data v)
               else if d = 1 then Inr (replicate n (hd (data v)))
               else Inl ValueError
      | _ \<Rightarrow> Inl ValueError)"

definition assign_column :: "real ndarray \<Rightarrow> nat \<Rightarrow> real list \<Rightarrow> real ndarray" where
  \<comment> \<open>\<open>a[:, k] = vals\<close> on a 2-D array, \<open>vals\<close> already broadcast to the number of rows.\<close>
  "assign_column a k vals =
     (let c = shape a ! 1
      in a\<lparr>data := map (\<lambda>p. if p mod c = k then vals ! (p div c) else data a ! p)
                       [0..<length (data a)]\<rparr>)"

section \<open>Strip waveguide\<close>

text \<open>
  An argument of \<open>straightWaveguide\<close> is a NumPy array or some other Python number.
\<close>

datatype pyarg = PyScalar real | PyArray "real ndarray"

definition sanitize :: "pyarg \<Rightarrow> real ndarray" where
  \<comment> \<open>\<open>np.squeeze(v) if type(v) is np.ndarray else np.array([v])\<close>\<close>
  "sanitize v = (case v of PyArray a \<Rightarrow> np_squeeze a | PyScalar x \<Rightarrow> np_array [x])"

primrec differentiate_columns ::
  "ann \<Rightarrow> real ndarray \<Rightarrow> nat \<Rightarrow> real ndarray \<Rightarrow> nat list \<Rightarrow> error + real ndarray" where
  \<comment> \<open>The loop \<open>for k in range(6): OUTPUT[:,k] = np.squeeze(differentiate(INPUT, d=(k,0,derivative)))\<close>\<close>
  "differentiate_columns nn INPUT derivative OUTPUT [] = Inr OUTPUT"
| "differentiate_columns nn INPUT derivative OUTPUT (k # ks) =
     (case ann_differentiate nn INPUT (k, 0, derivative) of
        Inl e \<Rightarrow> Inl e
      | Inr d \<Rightarrow>
          (case broadcast_to (shape OUTPUT ! 0) (np_squeeze d) of
             Inl e \<Rightarrow> Inl e
           | Inr vals \<Rightarrow> differentiate_columns nn INPUT derivative (assign_column OUTPUT k vals) ks))"

definition column_tensor :: "real ndarray \<Rightarrow> nat \<Rightarrow> nat list \<Rightarrow> error + real ndarray" where
  \<comment> \<open>\<open>np.reshape(OUTPUT[:,k], tensorSize)\<close>\<close>
  "column_tensor OUTPUT k tensorSize =
     (case np_column OUTPUT k of Inl e \<Rightarrow> Inl e | Inr col \<Rightarrow> np_reshape col tensorSize)"

type_synonym modes =
  "real ndarray \<times> real ndarray \<times> real ndarray \<times> real ndarray \<times> real ndarray \<times> real ndarray"

definition network_output :: "ann \<Rightarrow> real ndarray \<Rightarrow> nat option \<Rightarrow> error + real ndarray" where
  \<comment> \<open>\<open>OUTPUT\<close>: the network's output, or with \<open>derivative\<close> the six columns of derivatives.\<close>
  "network_output nn INPUT derivative =
     (case derivative of
        None \<Rightarrow> ann_output nn INPUT
      | Some d \<Rightarrow>
          (let numRows = shape INPUT ! 0;
               OUTPUT = np_zeros [numRows, 6]
           in differentiate_columns nn INPUT d OUTPUT [0..<6]))"

definition straightWaveguide ::
  "ann \<Rightarrow> pyarg \<Rightarrow> pyarg \<Rightarrow> pyarg \<Rightarrow> nat option \<Rightarrow> error + modes" where
  "straightWaveguide nn wavelength width thickness derivative =
     (let wavelength = sanitize wavelength;
          width = sanitize width;
          thickness = sanitize thickness
      in case cartesian_product [wavelength, width, thickness] of
           Inl e \<Rightarrow> Inl e
         | Inr INPUT \<Rightarrow>
             (case network_output nn INPUT derivative of
                Inl e \<Rightarrow> Inl e
              | Inr OUTPUT \<Rightarrow>
                  (let tensorSize = [np_size wavelength, np_size width, np_size thickness]
                   in case column_tensor OUTPUT 0 tensorSize of Inl e \<Rightarrow> Inl e | Inr TE0 \<Rightarrow>
                      case column_tensor OUTPUT 1 tensorSize of Inl e \<Rightarrow> Inl e | Inr TE1 \<Rightarrow>
                      case column_tensor OUTPUT 2 tensorSize of Inl e \<Rightarrow> Inl e | Inr TE2 \<Rightarrow>
                      case column_tensor OUTPUT 3 tensorSize of Inl e \<Rightarrow> Inl e | Inr TM0 \<Rightarrow>
                      case column_tensor OUTPUT 4 tensorSize of Inl e \<Rightarrow> Inl e | Inr TM1 \<Rightarrow>
                      case column_tensor OUTPUT 5 tensorSize of Inl e \<Rightarrow> Inl e | Inr TM2 \<Rightarrow>
                      Inr (TE0, TE1, TE2, TM0, TM1, TM2))))"

section \<open>Scattering matrices\<close>

text \<open>
  A \<open>complex128\<close> value is a complex number or, as \<open>None\<close>, a value with a \<open>nan\<close> or \<open>inf\<close>
  component: what NumPy's division by zero produces and \<open>np.exp\<close>, \<open>np.cos\<close>, \<open>np.sin\<close>
  and the products below turn into \<open>nan\<close>. In the program an intermediate result that
  overflows the range of a double ends in \<open>nan\<close> as well; overflow is not modelled, so a
  statement that needs an entry to be a number is made only for magnitudes that rule it
  out (\<open>no_overflow\<close> below). A scattering matrix of shape \<open>(N, k, k)\<close> is the list, over
  the \<open>N\<close> wavelength points, of \<open>k\<close> rows of \<open>k\<close> entries.
\<close>

type_synonym complex128 = "complex option"

type_synonym smatrix = "complex128 list list list"

definition smatrix_zeros :: "nat \<Rightarrow> nat \<Rightarrow> smatrix" where
  \<comment> \<open>\<open>np.zeros((N,k,k),dtype='complex128')\<close>\<close>
  "smatrix_zeros N k = replicate N (replicate k (replicate k (Some 0)))"

definition assign_port :: "smatrix \<Rightarrow> nat \<Rightarrow> nat \<Rightarrow> complex128 list \<Rightarrow> smatrix" where
  \<comment> \<open>\<open>S[:,i,j] = vals\<close>, \<open>vals\<close> already broadcast to the number of wavelength points.\<close>
  "assign_port S i j vals = map (\<lambda>(M, v). M[i := (M ! i)[j := v]]) (zip S vals)"

definition np_map :: "('a \<Rightarrow> 'b) \<Rightarrow> 'a ndarray \<Rightarrow> 'b ndarray" where
  \<comment> \<open>An elementwise expression over an array: same shape, the function on each element.\<close>
  "np_map f a = \<lparr>shape = shape a, data = map f (data a)\<rparr>"

definition straightWaveguide_S ::
  "ann \<Rightarrow> pyarg \<Rightarrow> pyarg \<Rightarrow> pyarg \<Rightarrow> real \<Rightarrow> real \<Rightarrow> error + smatrix" where
  \<comment> \<open>After \<open>S = np.zeros((N,2,2))\<close> the first assignment evaluates \<open>1j*2*np.pi*radius\<close>;
      neither \<open>radius\<close> nor \<open>angle\<close> is a parameter, a local or a global of the module,
      so the lookup raises NameError. \<open>wavelength.shape\<close> is an AttributeError on a number
      that is not an array.\<close>
  "straightWaveguide_S nn wavelength width thickness gap len =
     (case straightWaveguide nn wavelength width thickness None of
        Inl e \<Rightarrow> Inl e
      | Inr (TE0, TE1, TE2, TM0, TM1, TM2) \<Rightarrow>
          (let neff = TE0 in
           case (case wavelength of PyScalar x \<Rightarrow> Inl AttributeError | PyArray a \<Rightarrow> shape0 a) of
             Inl e \<Rightarrow> Inl e
           | Inr N \<Rightarrow> (let S = smatrix_zeros N 2 in Inl NameError)))"

section \<open>Bent waveguide\<close>

definition bent_phase :: "real \<Rightarrow> real \<Rightarrow> real \<Rightarrow> real \<Rightarrow> complex128" where
  \<comment> \<open>One element of \<open>np.exp(1j*2*np.pi*radius*neff*angle/wavelength)\<close>\<close>
  "bent_phase radius neff angle w =
     (if w = 0 then None
      else Some (exp (\<i> * 2 * of_real pi * of_real radius * of_real neff * of_real angle
                      / of_real w)))"

definition bentWaveguide ::
  "real ndarray \<Rightarrow> real \<Rightarrow> real \<Rightarrow> real \<Rightarrow> real \<Rightarrow> real \<Rightarrow> error + smatrix" where
  "bentWaveguide wavelength radius width thickness gap angle =
     (let neff = 2.323 in
      case shape0 wavelength of
        Inl e \<Rightarrow> Inl e
      | Inr N \<Rightarrow>
          (let S = smatrix_zeros N 2 in
           case broadcast_to N (np_map (bent_phase radius neff angle) wavelength) of
             Inl e \<Rightarrow> Inl e
           | Inr v01 \<Rightarrow>
               (let S = assign_port S 0 1 v01 in
                case broadcast_to N (np_map (bent_phase radius neff angle) wavelength) of
                  Inl e \<Rightarrow> Inl e
                | Inr v10 \<Rightarrow> Inr (assign_port S 1 0 v10))))"

section \<open>Evanescent waveguide coupler\<close>

definition coupler_x :: "real \<Rightarrow> real \<Rightarrow> real \<Rightarrow> real \<Rightarrow> complex128" where
  \<comment> \<open>One element of
      \<open>np.exp(-1j*2*np.pi*n0*couplerLength/wavelength) * np.cos(np.pi*dn/wavelength*couplerLength)\<close>,
      over the reals: \<open>nan\<close> at the wavelength zero; the \<open>nan\<close> of an overflowing intermediate
      result is outside the model.\<close>
  "coupler_x n0 dn couplerLength w =
     (if w = 0 then None
      else Some (exp (- \<i> * 2 * of_real pi * of_real n0 * of_real couplerLength / of_real w)
                 * of_real (cos (pi * dn / w * couplerLength))))"

definition coupler_y :: "real \<Rightarrow> real \<Rightarrow> real \<Rightarrow> real \<Rightarrow> complex128" where
  \<comment> \<open>One element of
      \<open>1j * np.exp(-1j*2*np.pi*n0*couplerLength/wavelength) * np.sin(np.pi*dn/wavelength*couplerLength)\<close>,
      over the reals: \<open>nan\<close> at the wavelength zero; the \<open>nan\<close> of an overflowing intermediate
      result is outside the model.\<close>
  "coupler_y n0 dn couplerLength w =
     (if w = 0 then None
      else Some (\<i> * exp (- \<i> * 2 * of_real pi * of_real n0 * of_real couplerLength / of_real w)
                 * of_real (sin (pi * dn / w * couplerLength))))"

primrec assign_ports :: "nat \<Rightarrow> smatrix \<Rightarrow> (nat \<times> nat \<times> complex128 ndarray) list \<Rightarrow> error + smatrix" where
  \<comment> \<open>A run of assignments \<open>S[:,i,j] = v\<close>, in order; the first that cannot broadcast raises.\<close>
  "assign_ports N S [] = Inr S"
| "assign_ports N S (a # as) =
     (case a of (i, j, v) \<Rightarrow>
        (case broadcast_to N v of
           Inl e \<Rightarrow> Inl e
         | Inr vals \<Rightarrow> assign_ports N (assign_port S i j vals) as))"

definition evWGcoupler ::
  "real ndarray \<Rightarrow> real \<Rightarrow> real \<Rightarrow> real \<Rightarrow> real \<Rightarrow> error + smatrix" where
  "evWGcoupler wavelength width thickness gap couplerLength =
     (let neff = (2 :: real) in
      case shape0 wavelength of
        Inl e \<Rightarrow> Inl e
      | Inr N \<Rightarrow>
          (let n0 = 2.323;
               n1 = 2.378022;
               n2 = 2.317864;
               dn = n1 - n2;
               x = np_map (coupler_x n0 dn couplerLength) wavelength;
               y = np_map (coupler_y n0 dn couplerLength) wavelength;
               S = smatrix_zeros N 4
           in assign_ports N S
                [(0, 1, x), (0, 3, y),
                 (1, 0, x), (1, 2, y),
                 (2, 1, y), (2, 3, x),
                 (3, 0, y), (3, 2, x)]))"

section \<open>Racetrack ring resonator\<close>

text \<open>
  \<open>rf.connect_s\<close> and \<open>rf.innerconnect_s\<close> belong to the scikit-rf library; the model takes
  them as parameters that return a scattering matrix or raise.
\<close>

definition racetrackRR ::
  "(smatrix \<Rightarrow> nat \<Rightarrow> smatrix \<Rightarrow> nat \<Rightarrow> error + smatrix) \<Rightarrow> (smatrix \<Rightarrow> nat \<Rightarrow> nat \<Rightarrow> error + smatrix)
   \<Rightarrow> real ndarray \<Rightarrow> real \<Rightarrow> real \<Rightarrow> real \<Rightarrow> real \<Rightarrow> real \<Rightarrow> error + smatrix" where
  "racetrackRR connect_s innerconnect_s wavelength radius couplerLength gap width thickness =
     (let wavelength = np_squeeze wavelength in
      case shape0 wavelength of
        Inl e \<Rightarrow> Inl e
      | Inr N \<Rightarrow>
          (case evWGcoupler wavelength width thickness gap couplerLength of
             Inl e \<Rightarrow> Inl e
           | Inr couplerS \<Rightarrow>
               (case bentWaveguide wavelength radius width thickness gap pi of
                  Inl e \<Rightarrow> Inl e
                | Inr bentS \<Rightarrow>
                    (case connect_s couplerS 2 bentS 0 of
                       Inl e \<Rightarrow> Inl e
                     | Inr S \<Rightarrow>
                         (case connect_s S 3 bentS 0 of
                            Inl e \<Rightarrow> Inl e
                          | Inr S \<Rightarrow>
                              (case connect_s S 2 couplerS 0 of
                                 Inl e \<Rightarrow> Inl e
                               | Inr S \<Rightarrow> innerconnect_s S 2 3))))))"

section \<open>The properties and formulas of the specification\<close>

definition np_tolist2 :: "'a ndarray \<Rightarrow> 'a list list" where
  \<comment> \<open>The rows of a 2-D array, in order.\<close>
  "np_tolist2 a =
     (let c = shape a ! 1 in map (\<lambda>i. take c (drop (i * c) (data a))) [0..<shape a ! 0])"

definition output_column :: "real ndarray \<Rightarrow> nat \<Rightarrow> real list" where
  \<comment> \<open>The flat column \<open>k\<close> of a 2-D array: \<open>OUTPUT[0,k]\<close>, \<open>OUTPUT[1,k]\<close>, and so on.\<close>
  "output_column OUTPUT k =
     (let m = shape OUTPUT ! 1 in map (\<lambda>r. data OUTPUT ! (r * m + k)) [0..<shape OUTPUT ! 0])"

definition smatrix_ports :: "nat \<Rightarrow> smatrix \<Rightarrow> bool" where
  \<comment> \<open>Every wavelength point has a \<open>k\<close> by \<open>k\<close> matrix.\<close>
  "smatrix_ports k S = list_all (\<lambda>M. length M = k \<and> list_all (\<lambda>row. length row = k) M) S"

definition smatrix_symmetric :: "smatrix \<Rightarrow> bool" where
  "smatrix_symmetric S =
     list_all (\<lambda>M. list_all (\<lambda>i. list_all (\<lambda>j. M ! i ! j = M ! j ! i) [0..<length M])
                             [0..<length M]) S"

definition smatrix_zero_diagonal :: "smatrix \<Rightarrow> bool" where
  "smatrix_zero_diagonal S = list_all (\<lambda>M. list_all (\<lambda>i. M ! i ! i = Some 0) [0..<length M]) S"

text \<open>
  The formulas below follow the words of the specification, to be compared with what the
  code computes. Where the wavelength is zero the quotient is not a number.
\<close>

definition bent_phase_spec :: "real \<Rightarrow> real \<Rightarrow> real \<Rightarrow> real \<Rightarrow> complex128" where
  \<comment> \<open>exp(i 2 pi radius effectiveIndex angle / wavelength)\<close>
  "bent_phase_spec radius effectiveIndex angle w =
     (if w = 0 then None
      else Some (exp (\<i> * of_real (2 * pi * radius * effectiveIndex * angle / w))))"

definition bar_amplitude_spec :: "real \<Rightarrow> real \<Rightarrow> real \<Rightarrow> real \<Rightarrow> complex128" where
  \<comment> \<open>x = exp(-i 2 pi n0 couplerLength / wavelength) cos(pi dn couplerLength / wavelength)\<close>
  "bar_amplitude_spec n0 dn couplerLength w =
     (if w = 0 then None
      else Some (exp (- (\<i> * of_real (2 * pi * n0 * couplerLength / w)))
                 * of_real (cos (pi * dn * couplerLength / w))))"

definition cross_amplitude_spec :: "real \<Rightarrow> real \<Rightarrow> real \<Rightarrow> real \<Rightarrow> complex128" where
  \<comment> \<open>y = i exp(-i 2 pi n0 couplerLength / wavelength) sin(pi dn couplerLength / wavelength)\<close>
  "cross_amplitude_spec n0 dn couplerLength w =
     (if w = 0 then None
      else Some (\<i> * exp (- (\<i> * of_real (2 * pi * n0 * couplerLength / w)))
                 * of_real (sin (pi * dn * couplerLength / w))))"

definition coupler_matrix_spec :: "complex128 \<Rightarrow> complex128 \<Rightarrow> complex128 list list" where
  \<comment> \<open>S[0,1] = S[1,0] = S[2,3] = S[3,2] = x and S[0,3] = S[3,0] = S[1,2] = S[2,1] = y,
      every other entry zero.\<close>
  "coupler_matrix_spec x y =
     [[Some 0, x, Some 0, y],
      [x, Some 0, y, Some 0],
      [Some 0, y, Some 0, x],
      [y, Some 0, x, Some 0]]"

definition amplitudes_lossless :: "complex128 \<Rightarrow> complex128 \<Rightarrow> bool" where
  \<comment> \<open>Both amplitudes are numbers and their squared magnitudes add up to one.\<close>
  "amplitudes_lossless x y =
     (case (x, y) of
        (Some a, Some b) \<Rightarrow> (cmod a)\<^sup>2 + (cmod b)\<^sup>2 = 1
      | _ \<Rightarrow> False)"

definition no_overflow :: "real \<Rightarrow> real \<Rightarrow> bool" where
  \<comment> \<open>Magnitudes of \<open>couplerLength\<close> and of one wavelength for which the wavelength is not
      zero and every intermediate result of the two lines that compute \<open>x\<close> and \<open>y\<close> (the
      products with \<open>couplerLength\<close>, the reciprocal of the wavelength, the quotients and
      their products) stays below \<open>2 ^ 1004\<close>, inside the range of a double.\<close>
  "no_overflow couplerLength w =
     (1 / 2 ^ 500 \<le> \<bar>w\<bar> \<and> \<bar>w\<bar> \<le> 2 ^ 500 \<and> \<bar>couplerLength\<bar> \<le> 2 ^ 500)"

section \<open>The grid of parameter combinations\<close>

lemma concat_uniform_length:
  "\<forall>r\<in>set rows. length r = n \<Longrightarrow> length (concat rows) = length rows * n"
  by (induction rows) auto

lemma concat_uniform_nth:
  "\<forall>r\<in>set rows. length r = n \<Longrightarrow> p < length rows * n \<Longrightarrow>
   concat rows ! p = rows ! (p div n) ! (p mod n)"
proof (induction rows arbitrary: p)
  case Nil
  then show ?case by simp
next
  case (Cons r rows)
  have n: "0 < n" using Cons.prems(2) by (cases n) auto
  show ?case
  proof (cases "p < n")
    case True
    then show ?thesis using Cons.prems by (simp add: nth_append)
  next
    case False
    then have q: "p - n < length rows * n" using Cons.prems(2) by auto
    have d: "p div n = Suc ((p - n) div n)" using False n
      by (simp add: le_div_geq)
    have m: "p mod n = (p - n) mod n" using False
      by (simp add: le_mod_geq)
    have "concat (r # rows) ! p = concat rows ! (p - n)"
      using False Cons.prems(1) by (simp add: nth_append)
    also have "\<dots> = rows ! ((p - n) div n) ! ((p - n) mod n)"
      using Cons.IH [of "p - n"] Cons.prems(1) q by simp
    finally show ?thesis using d m by simp
  qed
qed

lemma mod_div_mult2: "0 < s \<Longrightarrow> (m mod (s * d)) div s = (m div s) mod (d::nat)"
  by (simp add: mod_mult2_eq)

lemma product_lists_nth_Cons:
  assumes "r < length xs * length (product_lists xss)"
  shows "product_lists (xs # xss) ! r =
         xs ! (r div length (product_lists xss)) # product_lists xss ! (r mod length (product_lists xss))"
proof -
  let ?Q = "length (product_lists xss)"
  let ?rows = "map (\<lambda>x. map ((#) x) (product_lists xss)) xs"
  have Q: "0 < ?Q" using assms by (cases ?Q) auto
  have u: "\<forall>b\<in>set ?rows. length b = ?Q" by auto
  have d: "r div ?Q < length xs" using assms Q
    by (simp add: less_mult_imp_div_less)
  have "product_lists (xs # xss) ! r = ?rows ! (r div ?Q) ! (r mod ?Q)"
    using concat_uniform_nth [OF u, of r] assms by simp
  also have "\<dots> = xs ! (r div ?Q) # product_lists xss ! (r mod ?Q)"
    using d Q by simp
  finally show ?thesis .
qed

lemma product_lists_nth_nth:
  "r < prod_list (map length xss) \<Longrightarrow> i < length xss \<Longrightarrow>
   product_lists xss ! r ! i =
   xss ! i ! ((r div prod_list (drop (Suc i) (map length xss))) mod length (xss ! i))"
proof (induction xss arbitrary: r i)
  case Nil
  then show ?case by simp
next
  case (Cons xs xss)
  let ?Q = "prod_list (map length xss)"
  have lQ: "length (product_lists xss) = ?Q" by (simp add: length_product_lists prod_list.eq_foldr)
  have r: "r < length xs * ?Q" using Cons.prems(1) by simp
  have Q: "0 < ?Q" using r by (cases ?Q) auto
  have row: "product_lists (xs # xss) ! r = xs ! (r div ?Q) # product_lists xss ! (r mod ?Q)"
    using product_lists_nth_Cons [of r xs xss] r lQ by simp
  show ?case
  proof (cases i)
    case 0
    have "r div ?Q < length xs" using r Q by (simp add: less_mult_imp_div_less)
    then show ?thesis using 0 row by simp
  next
    case (Suc j)
    then have j: "j < length xss" using Cons.prems(2) by simp
    let ?s = "prod_list (drop (Suc j) (map length xss))"
    let ?d = "length (xss ! j)"
    have split: "?Q = prod_list (take j (map length xss)) * (?d * ?s)"
    proof -
      have "map length xss =
            take j (map length xss) @ (map length xss ! j) # drop (Suc j) (map length xss)"
        using j by (intro id_take_nth_drop) simp
      then have "?Q = prod_list (take j (map length xss) @ ?d # drop (Suc j) (map length xss))"
        using j by simp
      then show ?thesis by (simp only: prod_list.append prod_list.Cons)
    qed
    have s: "0 < ?s" using Q split by (cases ?s) auto
    have dv: "?s * ?d dvd ?Q" using split by (simp add: mult.commute)
    have "((r mod ?Q) div ?s) mod ?d = ((r mod ?Q) mod (?s * ?d)) div ?s"
      using s by (simp add: mod_div_mult2)
    also have "\<dots> = (r mod (?s * ?d)) div ?s"
      using dv by (simp add: mod_mod_cancel)
    also have "\<dots> = (r div ?s) mod ?d"
      using s by (simp add: mod_div_mult2)
    finally have "((r mod ?Q) div ?s) mod ?d = (r div ?s) mod ?d" .
    moreover have "product_lists xss ! (r mod ?Q) ! j =
        xss ! j ! (((r mod ?Q) div ?s) mod ?d)"
      using Cons.IH [of "r mod ?Q" j] Q j by simp
    ultimately show ?thesis using Suc row by simp
  qed
qed

lemma assign_last_shape [simp]: "shape (assign_last arr i a) = shape arr"
  by (simp add: assign_last_def Let_def)

lemma assign_last_length [simp]: "length (data (assign_last arr i a)) = length (data arr)"
  by (simp add: assign_last_def Let_def)

lemma assign_last_nth:
  "p < length (data arr) \<Longrightarrow>
   data (assign_last arr i a) ! p =
     (if p mod last (shape arr) = i
      then data a ! ((p div last (shape arr) div prod_list (drop (Suc i) (butlast (shape arr))))
                      mod (butlast (shape arr) ! i))
      else data arr ! p)"
  by (simp add: assign_last_def Let_def)

lemma enumerate_take_Suc:
  "k < length mesh \<Longrightarrow>
   enumerate 0 (take (Suc k) mesh) = enumerate 0 (take k mesh) @ [(k, mesh ! k)]"
  by (simp add: take_Suc_conv_app_nth enumerate_append_eq)

lemma foldl_assign_last:
  assumes "k \<le> length mesh"
  shows "shape (foldl (\<lambda>arr (i, a). assign_last arr i a) arr (enumerate 0 (take k mesh))) = shape arr
       \<and> length (data (foldl (\<lambda>arr (i, a). assign_last arr i a) arr (enumerate 0 (take k mesh))))
           = length (data arr)
       \<and> (\<forall>p<length (data arr).
            data (foldl (\<lambda>arr (i, a). assign_last arr i a) arr (enumerate 0 (take k mesh))) ! p =
              (if p mod last (shape arr) < k
               then data (mesh ! (p mod last (shape arr))) !
                      ((p div last (shape arr)
                          div prod_list (drop (Suc (p mod last (shape arr))) (butlast (shape arr))))
                        mod (butlast (shape arr) ! (p mod last (shape arr))))
               else data arr ! p))"
  using assms
proof (induction k)
  case 0
  then show ?case by simp
next
  case (Suc k)
  then have k: "k < length mesh" by simp
  let ?prev = "foldl (\<lambda>arr (i, a). assign_last arr i a) arr (enumerate 0 (take k mesh))"
  have IH: "shape ?prev = shape arr" "length (data ?prev) = length (data arr)"
    "\<And>p. p < length (data arr) \<Longrightarrow> data ?prev ! p =
              (if p mod last (shape arr) < k
               then data (mesh ! (p mod last (shape arr))) !
                      ((p div last (shape arr)
                          div prod_list (drop (Suc (p mod last (shape arr))) (butlast (shape arr))))
                        mod (butlast (shape arr) ! (p mod last (shape arr))))
               else data arr ! p)"
    using Suc.IH k by simp_all
  have step: "foldl (\<lambda>arr (i, a). assign_last arr i a) arr (enumerate 0 (take (Suc k) mesh))
              = assign_last ?prev k (mesh ! k)"
    using k by (simp add: enumerate_take_Suc)
  show ?case
    unfolding step
    by (auto simp: IH assign_last_nth less_Suc_eq)
qed

lemma py_lens_np_array: "py_lens (map np_array xss) = Inr (map length xss)"
  by (induction xss) (simp_all add: py_len_def np_array_def)

lemma np_ix_np_array:
  "\<exists>mesh. np_ix (map np_array xss) = Inr mesh \<and> length mesh = length xss
      \<and> (\<forall>k<length xss. data (mesh ! k) = xss ! k)"
  by (simp add: np_ix_def list_all_iff np_array_def nth_enumerate_eq)

lemma cartesian_product_np_array:
  assumes "xss \<noteq> []"
  shows "cartesian_product (map np_array xss) =
         Inr \<lparr>shape = [prod_list (map length xss), length xss],
              data = concat (product_lists xss)\<rparr>"
proof -
  let ?la = "length xss"
  let ?dims = "map length xss"
  let ?P = "prod_list ?dims"
  let ?arr = "np_empty (?dims @ [?la])"
  have la: "0 < ?la" using assms by simp
  obtain mesh where mesh: "np_ix (map np_array xss) = Inr mesh" "length mesh = ?la"
    "\<And>k. k < ?la \<Longrightarrow> data (mesh ! k) = xss ! k"
    using np_ix_np_array [of xss] by blast
  let ?res = "foldl (\<lambda>arr (i, a). assign_last arr i a) ?arr (enumerate 0 mesh)"
  have arr: "shape ?arr = ?dims @ [?la]" "length (data ?arr) = ?P * ?la"
    by (simp_all add: np_empty_def)
  have fold: "shape ?res = ?dims @ [?la]" "length (data ?res) = ?P * ?la"
    "\<And>p. p < ?P * ?la \<Longrightarrow> data ?res ! p =
        xss ! (p mod ?la) ! ((p div ?la div prod_list (drop (Suc (p mod ?la)) ?dims))
                               mod length (xss ! (p mod ?la)))"
    using foldl_assign_last [of ?la mesh ?arr] mesh(2,3) arr la by simp_all
  have rows: "\<forall>r\<in>set (product_lists xss). length r = ?la"
    using in_set_product_lists_length by blast
  have len: "length (product_lists xss) = ?P"
    by (simp add: length_product_lists prod_list.eq_foldr)
  have "data ?res = concat (product_lists xss)"
  proof (rule nth_equalityI)
    show "length (data ?res) = length (concat (product_lists xss))"
      using concat_uniform_length [OF rows] len fold(2) by simp
  next
    fix p assume "p < length (data ?res)"
    then have p: "p < ?P * ?la" using fold(2) by simp
    then have r: "p div ?la < ?P" using la by (simp add: less_mult_imp_div_less)
    have i: "p mod ?la < ?la" using la by simp
    have "concat (product_lists xss) ! p = product_lists xss ! (p div ?la) ! (p mod ?la)"
      using concat_uniform_nth [OF rows, of p] p len by simp
    also have "\<dots> = xss ! (p mod ?la) !
        ((p div ?la div prod_list (drop (Suc (p mod ?la)) ?dims)) mod length (xss ! (p mod ?la)))"
      using product_lists_nth_nth [OF r i] .
    finally show "data ?res ! p = concat (product_lists xss) ! p"
      using fold(3) [OF p] by simp
  qed
  moreover have "np_size ?res = ?P * ?la" using fold(1) by (simp add: np_size_def)
  ultimately have "np_reshape_rows ?res ?la = Inr \<lparr>shape = [?P, ?la], data = concat (product_lists xss)\<rparr>"
    using la by (simp add: np_reshape_rows_def)
  then show ?thesis
    using mesh(1) by (simp add: cartesian_product_def py_lens_np_array Let_def)
qed

lemma take_drop_concat_uniform:
  "\<forall>r\<in>set rows. length r = c \<Longrightarrow> i < length rows \<Longrightarrow>
   take c (drop (i * c) (concat rows)) = rows ! i"
proof (induction rows arbitrary: i)
  case Nil
  then show ?case by simp
next
  case (Cons r rows)
  show ?case
  proof (cases i)
    case 0
    then show ?thesis using Cons.prems by simp
  next
    case (Suc j)
    then have "take c (drop (i * c) (concat (r # rows))) = take c (drop (j * c) (concat rows))"
      using Cons.prems(1) by simp
    then show ?thesis using Cons.IH [of j] Cons.prems Suc by simp
  qed
qed

lemma np_tolist2_concat:
  assumes "\<forall>r\<in>set rows. length r = c"
  shows "np_tolist2 \<lparr>shape = [length rows, c], data = concat rows\<rparr> = rows"
proof (rule nth_equalityI)
  show "length (np_tolist2 \<lparr>shape = [length rows, c], data = concat rows\<rparr>) = length rows"
    by (simp add: np_tolist2_def)
next
  fix i assume "i < length (np_tolist2 \<lparr>shape = [length rows, c], data = concat rows\<rparr>)"
  then have i: "i < length rows" by (simp add: np_tolist2_def)
  then show "np_tolist2 \<lparr>shape = [length rows, c], data = concat rows\<rparr> ! i = rows ! i"
    using take_drop_concat_uniform [OF assms i] by (simp add: np_tolist2_def)
qed

lemma length_product_lists_prod: "length (product_lists xss) = prod_list (map length xss)"
  by (simp add: length_product_lists prod_list.eq_foldr)

text \<open>
  Claim C6. For a non-empty list of 1-D arrays, \<open>cartesian_product\<close> returns a 2-D array
  with as many rows as the product of the array lengths and as many columns as there are
  arrays; its rows, read in order, are the combinations of one element per array, in the
  order in which the last array varies fastest (the order of \<open>product_lists\<close>).
\<close>

theorem cartesian_product_rows:
  assumes "xss \<noteq> []"
  shows "\<exists>A. cartesian_product (map np_array xss) = Inr A
           \<and> shape A = [prod_list (map length xss), length xss]
           \<and> data A = concat (product_lists xss)
           \<and> np_tolist2 A = product_lists xss"
proof -
  have rows: "\<forall>r\<in>set (product_lists xss). length r = length xss"
    using in_set_product_lists_length by blast
  have "np_tolist2 \<lparr>shape = [length (product_lists xss), length xss],
                    data = concat (product_lists xss)\<rparr> = product_lists xss"
    using np_tolist2_concat [OF rows] .
  then show ?thesis
    using cartesian_product_np_array [OF assms] by (simp add: length_product_lists_prod)
qed

theorem cartesian_product_rows_witness:
  "[[1, 2], [10, 20, 30 :: real]] \<noteq> [] \<and>
   (\<exists>A. cartesian_product [np_array [1, 2], np_array [10, 20, 30]] = Inr A
      \<and> shape A = [6, 2]
      \<and> data A = [1, 10, 1, 20, 1, 30, 2, 10, 2, 20, 2, 30]
      \<and> np_tolist2 A = [[1, 10], [1, 20], [1, 30], [2, 10], [2, 20], [2, 30]])"
  using cartesian_product_rows [of "[[1, 2], [10, 20, 30]]"] by (simp add: eval_nat_numeral)

text \<open>
  Claim C8, as amended. When one of the 1-D arrays is empty, \<open>cartesian_product\<close> raises
  nothing: it returns the array of shape \<open>(0, la)\<close> that has no row.
\<close>

theorem cartesian_product_empty_axis:
  assumes "[] \<in> set xss"
  shows "cartesian_product (map np_array xss) = Inr \<lparr>shape = [0, length xss], data = []\<rparr>"
proof -
  have ne: "xss \<noteq> []" using assms by auto
  have "0 \<in> set (map length xss)" using assms by force
  then have z: "prod_list (map length xss) = 0" by (simp add: prod_list_zero_iff)
  then have "product_lists xss = []" using length_product_lists_prod [of xss] by simp
  then show ?thesis using cartesian_product_np_array [OF ne] z by simp
qed

theorem cartesian_product_empty_axis_witness:
  "[] \<in> set [[1, 2], [] :: real list] \<and>
   cartesian_product [np_array [1, 2], np_array []] = Inr \<lparr>shape = [0, 2], data = []\<rparr>"
  using cartesian_product_empty_axis [of "[[1, 2], []]"] by simp

text \<open>
  Claim C8 as stated fails: with an empty first axis the function returns an array.
\<close>

theorem cartesian_product_empty_axis_returns:
  "cartesian_product [np_array [], np_array [1]] = Inr \<lparr>shape = [0, 2], data = []\<rparr>"
  by (simp add: cartesian_product_def np_array_def py_len_def np_ix_def np_empty_def
      np_reshape_rows_def np_size_def enumerate_eq_zip assign_last_def Let_def)

section \<open>The primitive models\<close>

lemma shape0_np_array [simp]: "shape0 (np_array xs) = Inr (length xs)"
  by (simp add: shape0_def np_array_def)

lemma broadcast_to_np_map_np_array [simp]:
  "broadcast_to (length xs) (np_map f (np_array xs)) = Inr (map f xs)"
  by (simp add: broadcast_to_def np_map_def np_array_def)

lemma smatrix_zeros_map:
  "smatrix_zeros (length xs) k = map (\<lambda>w. replicate k (replicate k (Some 0))) xs"
  by (simp add: smatrix_zeros_def map_replicate_const)

lemma assign_port_map:
  "assign_port (map g xs) i j (map f xs) = map (\<lambda>w. (g w)[i := (g w ! i)[j := f w]]) xs"
  by (induction xs) (simp_all add: assign_port_def)

lemma bentWaveguide_np_array:
  "bentWaveguide (np_array wl) radius width thickness gap angle =
   Inr (map (\<lambda>w. [[Some 0, bent_phase radius 2.323 angle w],
                   [bent_phase radius 2.323 angle w, Some 0]]) wl)"
  by (simp add: bentWaveguide_def smatrix_zeros_map assign_port_map numeral_2_eq_2 Let_def)

lemma evWGcoupler_np_array:
  "evWGcoupler (np_array wl) width thickness gap couplerLength =
   Inr (map (\<lambda>w. [[Some 0, coupler_x 2.323 (2.378022 - 2.317864) couplerLength w, Some 0,
                    coupler_y 2.323 (2.378022 - 2.317864) couplerLength w],
                   [coupler_x 2.323 (2.378022 - 2.317864) couplerLength w, Some 0,
                    coupler_y 2.323 (2.378022 - 2.317864) couplerLength w, Some 0],
                   [Some 0, coupler_y 2.323 (2.378022 - 2.317864) couplerLength w, Some 0,
                    coupler_x 2.323 (2.378022 - 2.317864) couplerLength w],
                   [coupler_y 2.323 (2.378022 - 2.317864) couplerLength w, Some 0,
                    coupler_x 2.323 (2.378022 - 2.317864) couplerLength w, Some 0]]) wl)"
  by (simp add: evWGcoupler_def smatrix_zeros_map assign_port_map eval_nat_numeral Let_def)


lemma coupler_lossless:
  assumes "w \<noteq> 0"
  shows "\<exists>x y. coupler_x n0 dn L w = Some x \<and> coupler_y n0 dn L w = Some y
           \<and> (cmod x)\<^sup>2 + (cmod y)\<^sup>2 = 1"
proof -
  let ?t = "- (2 * pi * n0 * L / w)"
  have e: "- \<i> * 2 * of_real pi * of_real n0 * of_real L / of_real w = \<i> * of_real ?t"
    by simp
  have n: "cmod (exp (- \<i> * 2 * of_real pi * of_real n0 * of_real L / of_real w)) = 1"
    unfolding e by (simp only: cis_conv_exp [symmetric] norm_cis)
  show ?thesis
    using assms n
    by (simp add: coupler_x_def coupler_y_def norm_mult power_mult_distrib)
qed

lemma coupler_zero_length:
  assumes "w \<noteq> 0"
  shows "coupler_x n0 dn 0 w = Some 1 \<and> coupler_y n0 dn 0 w = Some 0"
  using assms by (simp add: coupler_x_def coupler_y_def)

lemma coupler_x_spec: "coupler_x n0 dn L w = bar_amplitude_spec n0 dn L w"
  by (simp add: coupler_x_def bar_amplitude_spec_def mult.assoc)

lemma coupler_y_spec: "coupler_y n0 dn L w = cross_amplitude_spec n0 dn L w"
  by (simp add: coupler_y_def cross_amplitude_spec_def mult.assoc)

lemma coupler_matrix_symmetric:
  "smatrix_symmetric (map (\<lambda>w. coupler_matrix_spec (f w) (g w)) wl)"
  by (simp add: smatrix_symmetric_def coupler_matrix_spec_def list.pred_map comp_def
      upt_rec [of 0] upt_rec [of 1] upt_rec [of 2] upt_rec [of 3] list.pred_True)

lemma coupler_matrix_zero_diagonal:
  "smatrix_zero_diagonal (map (\<lambda>w. coupler_matrix_spec (f w) (g w)) wl)"
  by (simp add: smatrix_zero_diagonal_def coupler_matrix_spec_def list.pred_map comp_def
      upt_rec [of 0] upt_rec [of 1] upt_rec [of 2] upt_rec [of 3] list.pred_True)

lemma coupler_matrix_ports:
  "smatrix_ports 4 (map (\<lambda>w. coupler_matrix_spec (f w) (g w)) wl)"
  by (simp add: smatrix_ports_def coupler_matrix_spec_def list.pred_map comp_def list.pred_True)

text \<open>
  Claim C2. For a 1-D wavelength array of length \<open>N\<close>, \<open>evWGcoupler\<close> returns \<open>N\<close> matrices
  of four rows and four columns; at each wavelength the matrix has the bar amplitude \<open>x\<close>
  at \<open>[0,1]\<close>, \<open>[1,0]\<close>, \<open>[2,3]\<close>, \<open>[3,2]\<close>, the cross amplitude \<open>y\<close> at \<open>[0,3]\<close>, \<open>[3,0]\<close>,
  \<open>[1,2]\<close>, \<open>[2,1]\<close> and zero elsewhere, with \<open>x\<close> and \<open>y\<close> the formulas of the
  specification for \<open>n0 = 2.323\<close> and \<open>dn = 2.378022 - 2.317864\<close>. The result is symmetric
  and its diagonal is zero.
\<close>

theorem evWGcoupler_matrix:
  "\<exists>S. evWGcoupler (np_array wl) width thickness gap couplerLength = Inr S
     \<and> S = map (\<lambda>w. coupler_matrix_spec
                      (bar_amplitude_spec 2.323 (2.378022 - 2.317864) couplerLength w)
                      (cross_amplitude_spec 2.323 (2.378022 - 2.317864) couplerLength w)) wl
     \<and> length S = length wl \<and> smatrix_ports 4 S
     \<and> smatrix_symmetric S \<and> smatrix_zero_diagonal S"
  by (simp add: evWGcoupler_np_array coupler_x_spec coupler_y_spec
      coupler_matrix_symmetric coupler_matrix_zero_diagonal coupler_matrix_ports
      coupler_matrix_spec_def [symmetric])

lemma bent_phase_eq_spec: "bent_phase radius neff angle w = bent_phase_spec radius neff angle w"
  by (simp add: bent_phase_def bent_phase_spec_def mult.assoc)

lemma bent_matrix_zero_diagonal:
  "smatrix_zero_diagonal (map (\<lambda>w. [[Some 0, f w], [f w, Some 0]]) wl)"
  by (simp add: smatrix_zero_diagonal_def list.pred_map comp_def
      upt_rec [of 0] upt_rec [of 1] list.pred_True)

lemma bent_matrix_ports:
  "smatrix_ports 2 (map (\<lambda>w. [[Some 0, f w], [f w, Some 0]]) wl)"
  by (simp add: smatrix_ports_def list.pred_map comp_def list.pred_True)

text \<open>
  Claim C4. For a 1-D wavelength array of length \<open>N\<close>, \<open>bentWaveguide\<close> returns \<open>N\<close>
  matrices of two rows and two columns whose off-diagonal entries both are
  \<open>exp(i 2 pi radius effectiveIndex angle / wavelength)\<close> for one effective index (the
  constant \<open>2.323\<close>) and whose diagonal entries are zero.
\<close>

theorem bentWaveguide_matrix:
  "\<exists>S. bentWaveguide (np_array wl) radius width thickness gap angle = Inr S
     \<and> S = map (\<lambda>w. [[Some 0, bent_phase_spec radius 2.323 angle w],
                      [bent_phase_spec radius 2.323 angle w, Some 0]]) wl
     \<and> length S = length wl \<and> smatrix_ports 2 S \<and> smatrix_zero_diagonal S"
  by (simp add: bentWaveguide_np_array bent_phase_eq_spec bent_matrix_zero_diagonal
      bent_matrix_ports)

lemma no_overflow_nonzero: "no_overflow couplerLength w \<Longrightarrow> w \<noteq> 0"
  by (auto simp: no_overflow_def)

text \<open>
  Claim C3, as amended. For a couplerLength and wavelengths of magnitudes at which nothing
  divides by zero or overflows (\<open>no_overflow\<close>), the amplitudes \<open>x = S[f,0,1]\<close> and
  \<open>y = S[f,0,3]\<close> that \<open>evWGcoupler\<close> computes satisfy \<open>|x|\<^sup>2 + |y|\<^sup>2 = 1\<close>, and with
  \<open>couplerLength = 0\<close> they are \<open>x = 1\<close> and \<open>y = 0\<close>.
\<close>

theorem evWGcoupler_lossless:
  "\<exists>S. evWGcoupler (np_array wl) width thickness gap couplerLength = Inr S
     \<and> length S = length wl
     \<and> (\<forall>f<length wl. no_overflow couplerLength (wl ! f) \<longrightarrow>
           amplitudes_lossless (S ! f ! 0 ! 1) (S ! f ! 0 ! 3)
         \<and> (couplerLength = 0 \<longrightarrow> S ! f ! 0 ! 1 = Some 1 \<and> S ! f ! 0 ! 3 = Some 0))"
proof -
  have a: "amplitudes_lossless (coupler_x n0 dn couplerLength w) (coupler_y n0 dn couplerLength w)"
    if "no_overflow couplerLength w" for w n0 dn
    using coupler_lossless [OF no_overflow_nonzero [OF that], of n0 dn couplerLength]
    by (auto simp: amplitudes_lossless_def)
  have b: "coupler_x n0 dn 0 w = Some 1 \<and> coupler_y n0 dn 0 w = Some 0"
    if "no_overflow 0 w" for w n0 dn
    using coupler_zero_length [OF no_overflow_nonzero [OF that]] .
  show ?thesis
    using a b by (auto simp: evWGcoupler_np_array)
qed

theorem evWGcoupler_lossless_witness:
  "(0::nat) < length [31/20 :: real] \<and> no_overflow 0 ([31/20] ! 0) \<and>
   (\<exists>S. evWGcoupler (np_array [31/20]) (1/2) (1/5) (1/5) 0 = Inr S
      \<and> length S = 1
      \<and> amplitudes_lossless (S ! 0 ! 0 ! 1) (S ! 0 ! 0 ! 3)
      \<and> S ! 0 ! 0 ! 1 = Some 1 \<and> S ! 0 ! 0 ! 3 = Some 0)"
proof -
  have h: "no_overflow 0 ([31/20] ! 0)"
    by (simp add: no_overflow_def)
  show ?thesis
    using h evWGcoupler_lossless [of "[31/20]" "1/2" "1/5" "1/5" 0] by simp
qed

text \<open>
  Claim C3 as stated fails at the wavelength zero: with \<open>couplerLength = 0\<close> both amplitudes
  are \<open>nan\<close>, neither \<open>x = 1\<close> nor \<open>y = 0\<close>, and their squared magnitudes do not add up to one.
\<close>

theorem evWGcoupler_zero_wavelength:
  "evWGcoupler (np_array [0]) (1/2) (1/5) (1/5) 0 =
     Inr [[[Some 0, None, Some 0, None],
           [None, Some 0, None, Some 0],
           [Some 0, None, Some 0, None],
           [None, Some 0, None, Some 0]]]"
  by (simp add: evWGcoupler_np_array coupler_x_def coupler_y_def)

lemma np_squeeze_single: "np_squeeze (np_array [w]) = \<lparr>shape = [], data = [w]\<rparr>"
  by (simp add: np_squeeze_def np_array_def)

lemma np_squeeze_np_array: "length xs \<noteq> 1 \<Longrightarrow> np_squeeze (np_array xs) = np_array xs"
  by (simp add: np_squeeze_def np_array_def)

text \<open>
  Claim C1 at a wavelength array of one point: \<open>np.squeeze\<close> turns the array into a 0-d
  array, \<open>wavelength.shape[0]\<close> raises IndexError, and no matrix is built.
\<close>

theorem racetrackRR_single_wavelength:
  "racetrackRR connect_s innerconnect_s (np_array [w]) radius couplerLength gap width thickness
     = Inl IndexError"
  by (simp add: racetrackRR_def np_squeeze_single shape0_def)

text \<open>
  For every other length the result is the sequence of connections of the coupler and
  the bend.
\<close>

lemma racetrackRR_sequence:
  assumes "length wl \<noteq> 1"
  shows "racetrackRR connect_s innerconnect_s (np_array wl) radius couplerLength gap width thickness =
     (case evWGcoupler (np_array wl) width thickness gap couplerLength of
        Inl e \<Rightarrow> Inl e
      | Inr couplerS \<Rightarrow>
      (case bentWaveguide (np_array wl) radius width thickness gap pi of
        Inl e \<Rightarrow> Inl e
      | Inr bentS \<Rightarrow>
      (case connect_s couplerS 2 bentS 0 of
        Inl e \<Rightarrow> Inl e
      | Inr S1 \<Rightarrow>
      (case connect_s S1 3 bentS 0 of
        Inl e \<Rightarrow> Inl e
      | Inr S2 \<Rightarrow>
      (case connect_s S2 2 couplerS 0 of
        Inl e \<Rightarrow> Inl e
      | Inr S3 \<Rightarrow> innerconnect_s S3 2 3)))))"
  using assms by (simp add: racetrackRR_def np_squeeze_np_array Let_def)

text \<open>
  Claim C10. The results of \<open>bentWaveguide\<close> and of \<open>evWGcoupler\<close> do not depend on
  \<open>width\<close>, \<open>thickness\<close> and \<open>gap\<close>.
\<close>

theorem geometry_independence:
  "bentWaveguide wavelength radius width thickness gap angle =
     bentWaveguide wavelength radius width' thickness' gap' angle
   \<and> evWGcoupler wavelength width thickness gap couplerLength =
     evWGcoupler wavelength width' thickness' gap' couplerLength"
  by (simp add: bentWaveguide_def evWGcoupler_def)

section \<open>The tensors of the strip waveguide\<close>

text \<open>
  Claim C7 at an axis given as an array of one element: \<open>np.squeeze\<close> turns it into a 0-d
  array, \<open>len\<close> of it raises TypeError inside \<open>cartesian_product\<close>, and no output of the
  network is ever reshaped.
\<close>

theorem straightWaveguide_single_element:
  "straightWaveguide nn (PyArray (np_array [w])) width thickness derivative = Inl TypeError"
  by (simp add: straightWaveguide_def sanitize_def np_squeeze_single cartesian_product_def
      py_len_def Let_def)

lemma np_column_2d:
  assumes "shape OUTPUT = [P, m]" "length (data OUTPUT) = P * m" "k < m"
  shows "np_column OUTPUT k =
         Inr \<lparr>shape = [P], data = map (\<lambda>r. data OUTPUT ! (r * m + k)) [0..<P]\<rparr>"
proof -
  have one: "take 1 (drop (r * m + k) (data OUTPUT)) = [data OUTPUT ! (r * m + k)]"
    if "r < P" for r
  proof -
    have "r * m + k < Suc r * m" using assms(3) by simp
    also have "\<dots> \<le> P * m" using that by (intro mult_le_mono1) simp
    finally have "r * m + k < length (data OUTPUT)" using assms(2) by simp
    then show ?thesis by (simp add: take_Suc_conv_app_nth)
  qed
  have "concat (map (\<lambda>r. take 1 (drop (r * m + k) (data OUTPUT))) [0..<P]) =
        concat (map (\<lambda>r. [data OUTPUT ! (r * m + k)]) [0..<P])"
    using one by (intro arg_cong [where f = concat] map_cong) auto
  also have "\<dots> = map (\<lambda>r. data OUTPUT ! (r * m + k)) [0..<P]"
    by (induction P) auto
  finally show ?thesis using assms(1,3) by (simp add: np_column_def)
qed

lemma column_tensor_2d_value:
  assumes "shape OUTPUT = [a * b * c, m]" "length (data OUTPUT) = a * b * c * m" "k < m"
  shows "column_tensor OUTPUT k [a, b, c] =
         Inr \<lparr>shape = [a, b, c], data = map (\<lambda>r. data OUTPUT ! (r * m + k)) [0..<a * b * c]\<rparr>"
  using np_column_2d [OF assms] by (simp add: column_tensor_def np_reshape_def np_size_def)

text \<open>
  For axes that the sanitisation leaves one-dimensional and a network output with one row
  per row of the grid and at least six columns, the six tensors have the shape
  \<open>(|ws|, |ds|, |ts|)\<close> and hold the columns of the output in row-major order; flattening
  a tensor gives the flat column back.
\<close>

lemma straightWaveguide_tensors:
  assumes "sanitize wavelength = np_array ws"
    and "sanitize width = np_array ds"
    and "sanitize thickness = np_array ts"
    and "network_output nn \<lparr>shape = [length ws * length ds * length ts, 3],
                             data = concat (product_lists [ws, ds, ts])\<rparr> derivative = Inr OUTPUT"
    and "shape OUTPUT = [length ws * length ds * length ts, m]"
    and "length (data OUTPUT) = length ws * length ds * length ts * m"
    and "6 \<le> m"
  shows "straightWaveguide nn wavelength width thickness derivative =
           Inr (\<lparr>shape = [length ws, length ds, length ts], data = output_column OUTPUT 0\<rparr>,
                \<lparr>shape = [length ws, length ds, length ts], data = output_column OUTPUT 1\<rparr>,
                \<lparr>shape = [length ws, length ds, length ts], data = output_column OUTPUT 2\<rparr>,
                \<lparr>shape = [length ws, length ds, length ts], data = output_column OUTPUT 3\<rparr>,
                \<lparr>shape = [length ws, length ds, length ts], data = output_column OUTPUT 4\<rparr>,
                \<lparr>shape = [length ws, length ds, length ts], data = output_column OUTPUT 5\<rparr>)
         \<and> (\<forall>k<6. np_ravel \<lparr>shape = [length ws, length ds, length ts],
                               data = output_column OUTPUT k\<rparr>
                     = \<lparr>shape = [length ws * length ds * length ts],
                        data = output_column OUTPUT k\<rparr>
                   \<and> np_column OUTPUT k
                     = Inr \<lparr>shape = [length ws * length ds * length ts],
                            data = output_column OUTPUT k\<rparr>)"
proof -
  let ?sz = "[length ws, length ds, length ts]"
  have grid: "cartesian_product [np_array ws, np_array ds, np_array ts] =
      Inr \<lparr>shape = [length ws * length ds * length ts, 3],
           data = concat (product_lists [ws, ds, ts])\<rparr>"
    using cartesian_product_np_array [of "[ws, ds, ts]"] by (simp add: mult.assoc)
  have oc: "output_column OUTPUT k =
            map (\<lambda>r. data OUTPUT ! (r * m + k)) [0..<length ws * length ds * length ts]" for k
    using assms(5) by (simp add: output_column_def)
  have col: "column_tensor OUTPUT k ?sz = Inr \<lparr>shape = ?sz, data = output_column OUTPUT k\<rparr>"
    if "k < 6" for k
    using column_tensor_2d_value [OF assms(5,6), of k] that assms(7) oc by simp
  have ret: "straightWaveguide nn wavelength width thickness derivative =
           Inr (\<lparr>shape = ?sz, data = output_column OUTPUT 0\<rparr>,
                \<lparr>shape = ?sz, data = output_column OUTPUT 1\<rparr>,
                \<lparr>shape = ?sz, data = output_column OUTPUT 2\<rparr>,
                \<lparr>shape = ?sz, data = output_column OUTPUT 3\<rparr>,
                \<lparr>shape = ?sz, data = output_column OUTPUT 4\<rparr>,
                \<lparr>shape = ?sz, data = output_column OUTPUT 5\<rparr>)"
    using grid assms(1-4) col [of 0] col [of 1] col [of 2] col [of 3] col [of 4] col [of 5]
    by (simp add: straightWaveguide_def Let_def np_size_def np_array_def)
  have rav: "np_ravel \<lparr>shape = ?sz, data = output_column OUTPUT k\<rparr>
             = \<lparr>shape = [length ws * length ds * length ts], data = output_column OUTPUT k\<rparr>" for k
    by (simp add: np_ravel_def np_size_def mult.assoc)
  have npc: "np_column OUTPUT k
             = Inr \<lparr>shape = [length ws * length ds * length ts], data = output_column OUTPUT k\<rparr>"
    if "k < 6" for k
    using np_column_2d [OF assms(5,6), of k] that assms(7) oc by simp
  show ?thesis using ret rav npc by simp
qed

section \<open>The scattering matrix of the strip waveguide\<close>

text \<open>
  Claim C5 against the code: \<open>straightWaveguide_S\<close> returns no matrix on any input; every
  call ends in an exception.
\<close>

theorem straightWaveguide_S_raises:
  "isl (straightWaveguide_S nn wavelength width thickness gap len)"
  by (auto simp: straightWaveguide_S_def Let_def split: sum.splits pyarg.splits prod.splits)

text \<open>
  With three wavelengths and a network that answers, the exception is the NameError.
\<close>

lemma straightWaveguide_S_NameError:
  "straightWaveguide_S \<lparr>ann_output = (\<lambda>INPUT. Inr (np_zeros [shape INPUT ! 0, 6])),
                         ann_differentiate = (\<lambda>INPUT d. Inl ValueError)\<rparr>
     (PyArray (np_array [3/2, 31/20, 8/5])) (PyScalar (1/2)) (PyScalar (1/5)) (1/5) 10
   = Inl NameError"
proof -
  let ?nn = "\<lparr>ann_output = (\<lambda>INPUT. Inr (np_zeros [shape INPUT ! 0, 6])),
             ann_differentiate = (\<lambda>INPUT d. Inl ValueError)\<rparr>"
  have h1: "sanitize (PyArray (np_array [3/2, 31/20, 8/5])) = np_array [3/2, 31/20, 8/5]"
    by (simp add: sanitize_def np_squeeze_def np_array_def)
  have h2: "sanitize (PyScalar (1/2)) = np_array [1/2]"
    by (simp add: sanitize_def)
  have h3: "sanitize (PyScalar (1/5)) = np_array [1/5]"
    by (simp add: sanitize_def)
  have h4: "network_output ?nn
        \<lparr>shape = [length [3/2, 31/20, 8/5 :: real] * length [1/2 :: real] * length [1/5 :: real], 3],
         data = concat (product_lists [[3/2, 31/20, 8/5], [1/2], [1/5]])\<rparr> None = Inr (np_zeros [3, 6])"
    by (simp add: network_output_def numeral_3_eq_3)
  have h5: "shape (np_zeros [3, 6]) =
        [length [3/2, 31/20, 8/5 :: real] * length [1/2 :: real] * length [1/5 :: real], 6]"
    by (simp add: np_zeros_def)
  have h6: "length (data (np_zeros [3, 6])) =
        length [3/2, 31/20, 8/5 :: real] * length [1/2 :: real] * length [1/5 :: real] * 6"
    by (simp add: np_zeros_def)
  have h7: "(6::nat) \<le> 6" by simp
  show ?thesis
    using straightWaveguide_tensors [OF h1 h2 h3 h4 h5 h6 h7]
    by (simp add: straightWaveguide_S_def)
qed

end
